theory Spec2Isabelle
  imports Main
begin

section \<open>Python values, errors and string helpers\<close>

text \<open>
  The script \<^verbatim>\<open>backup.py\<close> is a Python 2 program. Every exception it can raise is a value
  of \<open>error\<close>; a function that may raise returns \<open>error + 'a\<close> with \<open>Inl\<close> the exception.
  \<open>ShellError\<close> carries the command text and the exit status (\<^verbatim>\<open>returncode\<close>).
\<close>

datatype error =
    AttributeError string
  | UnboundLocalError string
  | NameError string
  | AssertionError
  | ValueError
  | KeyError string
  | ShellError string int

text \<open>
  A value stored in the instance dictionary of \<^verbatim>\<open>BackupConfig\<close>: a string (the value of a
  \<^verbatim>\<open>KEY VALUE\<close> line) or a list of strings (the initial \<^verbatim>\<open>FILEPATHS\<close>).
\<close>

datatype pyval = Str string | Lst "string list"

type_synonym config = "string \<rightharpoonup> pyval"

text \<open>\<^verbatim>\<open>str.strip()\<close> removes the ASCII whitespace of Python 2 at both ends.\<close>

definition is_space :: "char \<Rightarrow> bool" where
  "is_space c \<longleftrightarrow>
     c = CHR '' '' \<or> c = CHR 0x09 \<or> c = CHR 0x0A \<or> c = CHR 0x0B \<or> c = CHR 0x0C \<or> c = CHR 0x0D"

definition strip :: "string \<Rightarrow> string" where
  "strip s = rev (dropWhile is_space (rev (dropWhile is_space s)))"

text \<open>
  \<^verbatim>\<open>s.split(c)\<close> for a one-character separator: every occurrence splits, so the result
  is never empty and \<^verbatim>\<open>''.split(',')\<close> is \<^verbatim>\<open>['']\<close>.
\<close>

fun split_on :: "char \<Rightarrow> string \<Rightarrow> string list" where
  "split_on c [] = [[]]"
| "split_on c (x # xs) =
     (if x = c then [] # split_on c xs
      else (let r = split_on c xs in (x # hd r) # tl r))"

text \<open>
  \<^verbatim>\<open>line.split(' ', 1)\<close> on a line that contains a space: the text before the first
  space and the text after it.
\<close>

definition split_first :: "string \<Rightarrow> string \<times> string" where
  "split_first line =
     (takeWhile (\<lambda>c. c \<noteq> CHR '' '') line, drop 1 (dropWhile (\<lambda>c. c \<noteq> CHR '' '') line))"

text \<open>\<^verbatim>\<open>os.path.join(a, b)\<close> of \<^verbatim>\<open>posixpath\<close>, for two components.\<close>

definition path_join :: "string \<Rightarrow> string \<Rightarrow> string" where
  "path_join a b =
     (if b \<noteq> [] \<and> hd b = CHR ''/'' then b
      else if a = [] \<or> last a = CHR ''/'' then a @ b
      else a @ ''/'' @ b)"

text \<open>Decimal text of an integer, as \<^verbatim>\<open>"%s" % n\<close> gives it.\<close>

definition digit_char :: "nat \<Rightarrow> char" where
  "digit_char d = char_of (48 + d)"

fun digits :: "nat \<Rightarrow> string" where
  "digits n = (if n < 10 then [digit_char n] else digits (n div 10) @ [digit_char (n mod 10)])"

declare digits.simps [simp del]

definition str_int :: "int \<Rightarrow> string" where
  "str_int i = (if i < 0 then CHR ''-'' # digits (nat (- i)) else digits (nat i))"

text \<open>
  \<^verbatim>\<open>int(s)\<close> on a string: surrounding whitespace is dropped, one sign is allowed, and
  the rest must be a non-empty run of decimal digits; anything else is a \<^verbatim>\<open>ValueError\<close>.
\<close>

definition is_digit :: "char \<Rightarrow> bool" where
  "is_digit c \<longleftrightarrow> 48 \<le> (of_char c :: nat) \<and> (of_char c :: nat) \<le> 57"

definition digits_val :: "string \<Rightarrow> nat" where
  "digits_val s = foldl (\<lambda>acc c. 10 * acc + (of_char c - 48)) 0 s"

definition unsigned_int :: "string \<Rightarrow> error + int" where
  "unsigned_int s =
     (if s \<noteq> [] \<and> list_all is_digit s then Inr (int (digits_val s)) else Inl ValueError)"

definition py_int :: "string \<Rightarrow> error + int" where
  "py_int s =
     (case strip s of
        [] \<Rightarrow> Inl ValueError
      | c # cs \<Rightarrow>
          if c = CHR ''-'' then map_sum id uminus (unsigned_int cs)
          else if c = CHR ''+'' then unsigned_int cs
          else unsigned_int (c # cs))"

text \<open>
  \<^verbatim>\<open>"%s" % v\<close>: a string is itself; a list is its \<^verbatim>\<open>repr\<close>, with each element quoted.
  The second case is never reached by a configuration that \<^verbatim>\<open>Process\<close> builds, where
  only \<^verbatim>\<open>FILEPATHS\<close> can hold a list and no command formats it.
\<close>

definition hex_char :: "nat \<Rightarrow> char" where
  "hex_char d = (if d < 10 then char_of (48 + d) else char_of (87 + d))"

definition repr_char :: "char \<Rightarrow> char \<Rightarrow> string" where
  "repr_char q c =
     (if c = q \<or> c = CHR 0x5C then [CHR 0x5C, c]
      else if c = CHR 0x09 then [CHR 0x5C, CHR ''t'']
      else if c = CHR 0x0A then [CHR 0x5C, CHR ''n'']
      else if c = CHR 0x0D then [CHR 0x5C, CHR ''r'']
      else if (of_char c :: nat) < 32 \<or> 127 \<le> (of_char c :: nat)
        then [CHR 0x5C, CHR ''x'', hex_char (of_char c div 16), hex_char (of_char c mod 16)]
      else [c])"

definition repr_str :: "string \<Rightarrow> string" where
  "repr_str s =
     (let q = (if CHR 0x27 \<in> set s \<and> CHR 0x22 \<notin> set s then CHR 0x22 else CHR 0x27)
      in q # concat (map (repr_char q) s) @ [q])"

fun join_comma :: "string list \<Rightarrow> string" where
  "join_comma [] = []"
| "join_comma [x] = x"
| "join_comma (x # y # ys) = x @ '', '' @ join_comma (y # ys)"

fun py_str :: "pyval \<Rightarrow> string" where
  "py_str (Str s) = s"
| "py_str (Lst xs) = ''['' @ join_comma (map repr_str xs) @ '']''"

text \<open>
  Reading an attribute of the configuration object. None of the names the script reads is
  a class attribute, so the instance dictionary decides, and a missing name raises
  \<^verbatim>\<open>AttributeError\<close>.
\<close>

definition getattr :: "config \<Rightarrow> string \<Rightarrow> error + pyval" where
  "getattr cfg name = (case cfg name of None \<Rightarrow> Inl (AttributeError name) | Some v \<Rightarrow> Inr v)"

section \<open>BackupConfig\<close>

text \<open>
  The file system as the loader sees it: a path has no file (\<open>None\<close>) or a file with its
  lines, each as \<^verbatim>\<open>xreadlines\<close> yields it.
\<close>

type_synonym files = "string \<rightharpoonup> string list"

text \<open>
  One iteration of the loop of \<^verbatim>\<open>Process\<close>. \<^verbatim>\<open>self.__dict__[key] = value\<close> stores under any
  key, \<^verbatim>\<open>FILEPATHS\<close> included; \<^verbatim>\<open>self.FILEPATHS.append(line)\<close> needs the attribute to be a
  list still, a string has no \<^verbatim>\<open>append\<close>.
\<close>

definition Process_line :: "config \<Rightarrow> string \<Rightarrow> error + config" where
  "Process_line d raw =
     (let line = strip raw in
      if line = [] \<or> hd line = CHR ''#'' then Inr d
      else if CHR '' '' \<in> set line then
        (let (key, value) = split_first line in Inr (d(key \<mapsto> Str value)))
      else
        (case d ''FILEPATHS'' of
           None \<Rightarrow> Inl (AttributeError ''FILEPATHS'')
         | Some (Str v) \<Rightarrow> Inl (AttributeError ''append'')
         | Some (Lst ps) \<Rightarrow> Inr (d(''FILEPATHS'' \<mapsto> Lst (ps @ [line])))))"

fun Process :: "config \<Rightarrow> string list \<Rightarrow> error + config" where
  "Process d [] = Inr d"
| "Process d (raw # rest) =
     (case Process_line d raw of Inl e \<Rightarrow> Inl e | Inr d' \<Rightarrow> Process d' rest)"

text \<open>\<^verbatim>\<open>BackupConfig(filename)\<close>: the assertion, the empty path list, then \<^verbatim>\<open>Process\<close>.\<close>

definition BackupConfig :: "files \<Rightarrow> string \<Rightarrow> error + config" where
  "BackupConfig fls filename =
     (case fls filename of
        None \<Rightarrow> Inl AssertionError
      | Some lines \<Rightarrow> Process (Map.empty(''FILEPATHS'' \<mapsto> Lst [])) lines)"

section \<open>Shell\<close>

text \<open>
  The environment of the script: \<open>exec\<close> runs a command line in the current world and
  gives its exit status and the world afterwards (\<^verbatim>\<open>Popen(cmd, shell=True)\<close> followed by
  \<^verbatim>\<open>wait()\<close>), \<open>path_exists\<close> is \<^verbatim>\<open>os.path.exists\<close>. The state of a run is the world,
  the command lines issued so far and the messages handed to \<^verbatim>\<open>logging\<close>.
\<close>

record 'w env =
  exec :: "string \<Rightarrow> 'w \<Rightarrow> int \<times> 'w"
  path_exists :: "string \<Rightarrow> 'w \<Rightarrow> bool"

record 'w sys =
  world :: 'w
  issued :: "string list"
  logged :: "string list"

type_synonym 'w outcome = "(error + unit) \<times> 'w sys"

definition log_msg :: "string \<Rightarrow> 'w sys \<Rightarrow> 'w sys" where
  "log_msg m s = s\<lparr>logged := logged s @ [m]\<rparr>"

definition Shell :: "'w env \<Rightarrow> string \<Rightarrow> 'w sys \<Rightarrow> 'w outcome" where
  "Shell en cmd s =
     (let (rc, w') = exec en cmd (world s);
          s' = s\<lparr>world := w', issued := issued s @ [cmd]\<rparr>
      in if rc \<noteq> 0 then (Inl (ShellError cmd rc), s') else (Inr (), s'))"

text \<open>Statements in sequence: an exception ends the block.\<close>

definition and_then :: "'w outcome \<Rightarrow> ('w sys \<Rightarrow> 'w outcome) \<Rightarrow> 'w outcome" where
  "and_then r f = (case r of (Inl e, s) \<Rightarrow> (Inl e, s) | (Inr u, s) \<Rightarrow> f s)"

text \<open>
  What the string operations of the script do to a configuration value: \<^verbatim>\<open>os.path.join\<close>
  calls \<^verbatim>\<open>endswith\<close> on its first argument unless the second is absolute, and a list has
  no such method; likewise for the other methods named by \<open>as_str\<close>.
\<close>

fun as_str :: "string \<Rightarrow> pyval \<Rightarrow> error + string" where
  "as_str meth (Str v) = Inr v"
| "as_str meth (Lst xs) = Inl (AttributeError meth)"

fun path_join_val :: "pyval \<Rightarrow> string \<Rightarrow> error + string" where
  "path_join_val (Str a) b = Inr (path_join a b)"
| "path_join_val (Lst xs) b =
     (if b \<noteq> [] \<and> hd b = CHR ''/'' then Inr b else Inl (AttributeError ''endswith''))"

text \<open>\<^verbatim>\<open>for x in v\<close>: the elements of a list, the characters of a string.\<close>

fun py_iter :: "pyval \<Rightarrow> string list" where
  "py_iter (Lst xs) = xs"
| "py_iter (Str v) = map (\<lambda>c. [c]) v"

section \<open>RunBackup\<close>

text \<open>
  Lines 87 to 98. Without \<^verbatim>\<open>PRE_MOUNT\<close> the first \<^verbatim>\<open>try\<close> passes and leaves the local
  \<^verbatim>\<open>premount\<close> unbound; the second \<^verbatim>\<open>try\<close> then reads it, and its \<^verbatim>\<open>except\<close> clause takes
  a \<^verbatim>\<open>ShellError\<close> only.
\<close>

definition pre_mount :: "'w env \<Rightarrow> config \<Rightarrow> 'w sys \<Rightarrow> 'w outcome" where
  "pre_mount en cfg s =
     (case cfg ''PRE_MOUNT'' of
        None \<Rightarrow> (Inl (UnboundLocalError ''premount''), s)
      | Some premount \<Rightarrow>
          (case Shell en (''mount '' @ py_str premount) s of
             (Inr u, s1) \<Rightarrow> (Inr (), s1)
           | (Inl e, s1) \<Rightarrow>
               (case e of
                  ShellError c rc \<Rightarrow>
                    if rc \<noteq> 32 then (Inl e, log_msg ''Pre Mount Failed'' s1) else (Inr (), s1)
                | _ \<Rightarrow> (Inl e, s1))))"

text \<open>Lines 100 to 104.\<close>

definition encfs_mount :: "'w env \<Rightarrow> config \<Rightarrow> 'w sys \<Rightarrow> 'w outcome" where
  "encfs_mount en cfg s =
     (case getattr cfg ''ENCRYPTED_MOUNTPOINT'' of Inl e \<Rightarrow> (Inl e, s) | Inr em \<Rightarrow>
      case path_join_val em ''current'' of Inl e \<Rightarrow> (Inl e, s) | Inr current \<Rightarrow>
      case getattr cfg ''ENCFS_PASSWORD'' of Inl e \<Rightarrow> (Inl e, s) | Inr pw \<Rightarrow>
      case getattr cfg ''DECRYPTED_MOUNTPOINT'' of Inl e \<Rightarrow> (Inl e, s) | Inr dm \<Rightarrow>
        Shell en (''echo '' @ [CHR 0x27] @ py_str pw @ [CHR 0x27] @ '' | encfs -S '' @ current
                  @ '' '' @ py_str dm) s)"

text \<open>Lines 106 to 110: the command for one path, and the loop.\<close>

definition rsync_cmd :: "string \<Rightarrow> pyval \<Rightarrow> pyval \<Rightarrow> string" where
  "rsync_cmd filepath flags dm = ''rsync '' @ filepath @ '' '' @ py_str flags @ '' '' @ py_str dm"

fun rsync_loop :: "'w env \<Rightarrow> config \<Rightarrow> string list \<Rightarrow> 'w sys \<Rightarrow> 'w outcome" where
  "rsync_loop en cfg [] s = (Inr (), s)"
| "rsync_loop en cfg (filepath # rest) s =
     (case getattr cfg ''RSYNC_FLAGS'' of Inl e \<Rightarrow> (Inl e, s) | Inr flags \<Rightarrow>
      case getattr cfg ''DECRYPTED_MOUNTPOINT'' of Inl e \<Rightarrow> (Inl e, s) | Inr dm \<Rightarrow>
        and_then (Shell en (rsync_cmd filepath flags dm) s) (rsync_loop en cfg rest))"

definition rsync_all :: "'w env \<Rightarrow> config \<Rightarrow> 'w sys \<Rightarrow> 'w outcome" where
  "rsync_all en cfg s =
     (case getattr cfg ''FILEPATHS'' of Inl e \<Rightarrow> (Inl e, s)
      | Inr v \<Rightarrow> rsync_loop en cfg (py_iter v) s)"

text \<open>Lines 112 to 119.\<close>

definition should_unmount :: "config \<Rightarrow> bool" where
  "should_unmount cfg = (case cfg ''UNMOUNT_AT_END'' of None \<Rightarrow> True | Some v \<Rightarrow> v = Str ''True'')"

definition unmount_at_end :: "'w env \<Rightarrow> config \<Rightarrow> 'w sys \<Rightarrow> 'w outcome" where
  "unmount_at_end en cfg s =
     (if should_unmount cfg then
        (case getattr cfg ''DECRYPTED_MOUNTPOINT'' of Inl e \<Rightarrow> (Inl e, s)
         | Inr dm \<Rightarrow> Shell en (''fusermount -u '' @ py_str dm) s)
      else (Inr (), s))"

text \<open>The copying part of \<^verbatim>\<open>RunBackup\<close>, lines 106 to 119, and the whole function.\<close>

definition syncAll :: "'w env \<Rightarrow> config \<Rightarrow> 'w sys \<Rightarrow> 'w outcome" where
  "syncAll en cfg s = and_then (rsync_all en cfg s) (unmount_at_end en cfg)"

definition RunBackup :: "'w env \<Rightarrow> config \<Rightarrow> 'w sys \<Rightarrow> 'w outcome" where
  "RunBackup en cfg s =
     and_then (and_then (pre_mount en cfg s) (encfs_mount en cfg)) (syncAll en cfg)"

section \<open>MakeSnapshot\<close>

text \<open>
  Lines 123 to 126: each pair must split at \<^verbatim>\<open>=\<close> into exactly two parts, or the
  unpacking raises \<^verbatim>\<open>ValueError\<close>; \<^verbatim>\<open>int\<close> is applied to the value of a matching key only.
\<close>

fun count_loop :: "string \<Rightarrow> string list \<Rightarrow> int \<Rightarrow> error + int" where
  "count_loop frequency [] total_snapshots = Inr total_snapshots"
| "count_loop frequency (pair # rest) total_snapshots =
     (case split_on CHR ''='' pair of
        [key, value] \<Rightarrow>
          if key = frequency then
            (case py_int value of Inl e \<Rightarrow> Inl e | Inr n \<Rightarrow> count_loop frequency rest n)
          else count_loop frequency rest total_snapshots
      | _ \<Rightarrow> Inl ValueError)"

text \<open>\<^verbatim>\<open>range(n, 1, -1)\<close>: \<open>n\<close>, \<open>n - 1\<close>, and so on down to 2.\<close>

definition range_down :: "int \<Rightarrow> int list" where
  "range_down n = rev [2..n]"

definition snapshot_path :: "pyval \<Rightarrow> string \<Rightarrow> int \<Rightarrow> error + string" where
  "snapshot_path em frequency n = path_join_val em (frequency @ ''.'' @ str_int n)"

text \<open>Lines 137 to 143.\<close>

fun shift_loop :: "'w env \<Rightarrow> config \<Rightarrow> string \<Rightarrow> int list \<Rightarrow> 'w sys \<Rightarrow> 'w outcome" where
  "shift_loop en cfg frequency [] s = (Inr (), s)"
| "shift_loop en cfg frequency (ii # rest) s =
     (case getattr cfg ''ENCRYPTED_MOUNTPOINT'' of Inl e \<Rightarrow> (Inl e, s) | Inr em \<Rightarrow>
      case snapshot_path em frequency (ii - 1) of Inl e \<Rightarrow> (Inl e, s) | Inr source_backup \<Rightarrow>
      case snapshot_path em frequency ii of Inl e \<Rightarrow> (Inl e, s) | Inr dest_backup \<Rightarrow>
        if path_exists en source_backup (world s) then
          and_then (Shell en (''mv '' @ source_backup @ '' '' @ dest_backup) s)
                   (shift_loop en cfg frequency rest)
        else shift_loop en cfg frequency rest s)"

text \<open>Lines 145 to 148.\<close>

definition clone_current :: "'w env \<Rightarrow> config \<Rightarrow> string \<Rightarrow> 'w sys \<Rightarrow> 'w outcome" where
  "clone_current en cfg frequency s =
     (case getattr cfg ''ENCRYPTED_MOUNTPOINT'' of Inl e \<Rightarrow> (Inl e, s) | Inr em \<Rightarrow>
      case path_join_val em ''current'' of Inl e \<Rightarrow> (Inl e, s) | Inr current \<Rightarrow>
      case path_join_val em (frequency @ ''.1'') of Inl e \<Rightarrow> (Inl e, s) | Inr dest_backup \<Rightarrow>
        Shell en (''cp -al '' @ current @ '' '' @ dest_backup) s)"

text \<open>
  The whole function. The message of the assertion on line 128 names \<^verbatim>\<open>frequency_type\<close>,
  which nothing defines; Python evaluates the message only when the condition is false,
  and the evaluation raises \<^verbatim>\<open>NameError\<close> before an \<^verbatim>\<open>AssertionError\<close> can be built.
\<close>

definition MakeSnapshot :: "'w env \<Rightarrow> config \<Rightarrow> string \<Rightarrow> 'w sys \<Rightarrow> 'w outcome" where
  "MakeSnapshot en cfg frequency s =
     (case getattr cfg ''SNAPSHOTS'' of Inl e \<Rightarrow> (Inl e, s) | Inr sv \<Rightarrow>
      case as_str ''split'' sv of Inl e \<Rightarrow> (Inl e, s) | Inr table \<Rightarrow>
      case count_loop frequency (split_on CHR '','' table) 0 of Inl e \<Rightarrow> (Inl e, s)
      | Inr total_snapshots \<Rightarrow>
        if \<not> 0 < total_snapshots then (Inl (NameError ''frequency_type''), s)
        else
          (case getattr cfg ''ENCRYPTED_MOUNTPOINT'' of Inl e \<Rightarrow> (Inl e, s) | Inr em \<Rightarrow>
           case snapshot_path em frequency total_snapshots of Inl e \<Rightarrow> (Inl e, s)
           | Inr backup_to_delete \<Rightarrow>
               and_then
                 (and_then (Shell en (''rm -rf '' @ backup_to_delete) s)
                    (shift_loop en cfg frequency (range_down total_snapshots)))
                 (clone_current en cfg frequency)))"

section \<open>The script\<close>






section \<open>Environments and reference inputs\<close>

text \<open>
  The world after running the given command lines in order when each of them exits with
  status 0, and \<open>None\<close> as soon as one does not.
\<close>

fun run_all :: "'w env \<Rightarrow> string list \<Rightarrow> 'w \<Rightarrow> 'w option" where
  "run_all en [] w = Some w"
| "run_all en (c # cs) w =
     (case exec en c w of (rc, w') \<Rightarrow> if rc = 0 then run_all en cs w' else None)"

text \<open>
  An environment without state, where the exit status of a command is a function of its
  text and no path exists.
\<close>

definition scripted :: "(string \<Rightarrow> int) \<Rightarrow> unit env" where
  "scripted codes = \<lparr>exec = (\<lambda>cmd w. (codes cmd, w)), path_exists = (\<lambda>p w. False)\<rparr>"

definition start :: "'w \<Rightarrow> 'w sys" where
  "start w = \<lparr>world = w, issued = [], logged = []\<rparr>"

text \<open>
  The lines of a configuration file with every directive but \<^verbatim>\<open>PRE_MOUNT\<close>, and a
  configuration that has them all.
\<close>

definition rc_no_premount :: "string list" where
  "rc_no_premount =
     [''# nightly backup'',
      ''ENCRYPTED_MOUNTPOINT /mnt/enc'',
      ''DECRYPTED_MOUNTPOINT /mnt/dec'',
      ''ENCFS_PASSWORD secret'',
      ''RSYNC_FLAGS -a'',
      ''SNAPSHOTS hourly=3,daily=2'',
      ''LOG_FILE /var/log/backup.log'',
      ''/home/greg/'']"

definition demo_cfg :: config where
  "demo_cfg =
     [''FILEPATHS'' \<mapsto> Lst [''/a'', ''/b'', ''/c''],
      ''PRE_MOUNT'' \<mapsto> Str ''/dev/sdb1'',
      ''ENCRYPTED_MOUNTPOINT'' \<mapsto> Str ''/mnt/enc'',
      ''DECRYPTED_MOUNTPOINT'' \<mapsto> Str ''/mnt/dec'',
      ''ENCFS_PASSWORD'' \<mapsto> Str ''secret'',
      ''RSYNC_FLAGS'' \<mapsto> Str ''-a'',
      ''SNAPSHOTS'' \<mapsto> Str ''hourly=3,daily=3'',
      ''LOG_FILE'' \<mapsto> Str ''/var/log/backup.log'']"


text \<open>
  The lines of a configuration file as the format describes them: the stripped lines that
  are neither empty nor comments; among them the path lines, which have no space, and the
  key/value lines, each split at its first space. All in file order.
\<close>

definition content_lines :: "string list \<Rightarrow> string list" where
  "content_lines lines = filter (\<lambda>l. l \<noteq> [] \<and> hd l \<noteq> CHR ''#'') (map strip lines)"

definition path_lines :: "string list \<Rightarrow> string list" where
  "path_lines lines = filter (\<lambda>l. CHR '' '' \<notin> set l) (content_lines lines)"

definition kv_lines :: "string list \<Rightarrow> (string \<times> string) list" where
  "kv_lines lines = map split_first (filter (\<lambda>l. CHR '' '' \<in> set l) (content_lines lines))"

text \<open>What loading a file gives for one attribute name.\<close>

definition lookup_loaded :: "files \<Rightarrow> string \<Rightarrow> string \<Rightarrow> error + pyval option" where
  "lookup_loaded fls filename name =
     (case BackupConfig fls filename of Inl e \<Rightarrow> Inl e | Inr cfg \<Rightarrow> Inr (cfg name))"

text \<open>A configuration file that gives \<^verbatim>\<open>PRE_MOUNT\<close> twice.\<close>

definition rc_twice :: "string list" where
  "rc_twice =
     [''# two devices'',
      ''PRE_MOUNT /dev/sdb1'',
      ''  '',
      ''/home/greg/'',
      ''RSYNC_FLAGS -a --delete'',
      ''PRE_MOUNT /dev/sdc1'',
      ''/etc/fstab'']"

section \<open>A reference file system\<close>

text \<open>
  The world that the rotation is judged in: a set of directory trees, each under a path of
  its own, with the content of a tree left abstract. The three tools have their usual
  effect on it for a command line whose words are separated by single spaces:
  \<^verbatim>\<open>rm -rf\<close> removes the tree if there is one and succeeds;
  \<^verbatim>\<open>mv\<close> and \<^verbatim>\<open>cp -al\<close> fail when the source is missing or is the destination itself,
  and otherwise put the source tree, or a copy of it, at the destination, or inside it
  under the name of the source when the destination exists already.
  Any other command line fails and changes nothing.
\<close>

type_synonym 'a fs = "string \<rightharpoonup> 'a"

definition basename :: "string \<Rightarrow> string" where
  "basename p = rev (takeWhile (\<lambda>c. c \<noteq> CHR ''/'') (rev p))"

definition fs_target :: "'a fs \<Rightarrow> string \<Rightarrow> string \<Rightarrow> string" where
  "fs_target fs a b = (if fs b = None then b else path_join b (basename a))"

definition fs_rm :: "string \<Rightarrow> 'a fs \<Rightarrow> int \<times> 'a fs" where
  "fs_rm p fs = (0, fs(p := None))"

definition fs_mv :: "string \<Rightarrow> string \<Rightarrow> 'a fs \<Rightarrow> int \<times> 'a fs" where
  "fs_mv a b fs =
     (case fs a of
        None \<Rightarrow> (1, fs)
      | Some t \<Rightarrow> if a = b then (1, fs) else (0, (fs(a := None))(fs_target fs a b \<mapsto> t)))"

definition fs_cp :: "string \<Rightarrow> string \<Rightarrow> 'a fs \<Rightarrow> int \<times> 'a fs" where
  "fs_cp a b fs =
     (case fs a of
        None \<Rightarrow> (1, fs)
      | Some t \<Rightarrow> if a = b then (1, fs) else (0, fs(fs_target fs a b \<mapsto> t)))"

definition fs_exec :: "string \<Rightarrow> 'a fs \<Rightarrow> int \<times> 'a fs" where
  "fs_exec cmd fs =
     (case split_on CHR '' '' cmd of
        [c, x, y] \<Rightarrow>
          if c = ''rm'' \<and> x = ''-rf'' then fs_rm y fs
          else if c = ''mv'' then fs_mv x y fs
          else (127, fs)
      | [c, opt, x, y] \<Rightarrow> if c = ''cp'' \<and> opt = ''-al'' then fs_cp x y fs else (127, fs)
      | _ \<Rightarrow> (127, fs))"

definition fs_env :: "'a fs env" where
  "fs_env = \<lparr>exec = fs_exec, path_exists = (\<lambda>p fs. fs p \<noteq> None)\<rparr>"



text \<open>The example of the specification: depth 3, two generations present.\<close>

definition daily_fs :: "nat fs" where
  "daily_fs =
     [''/mnt/enc/current'' \<mapsto> 0, ''/mnt/enc/daily.1'' \<mapsto> 1, ''/mnt/enc/daily.2'' \<mapsto> 2]"

section \<open>Properties\<close>

subsection \<open>Sequencing and the shell\<close>

lemma and_then_simps [simp]:
  "and_then (Inl e, s) f = (Inl e, s)"
  "and_then (Inr u, s) f = f s"
  by (simp_all add: and_then_def)

lemma Shell_exit:
  "exec en cmd (world s) = (rc, w') \<Longrightarrow>
   Shell en cmd s =
     (if rc \<noteq> 0 then Inl (ShellError cmd rc) else Inr (),
      s\<lparr>world := w', issued := issued s @ [cmd]\<rparr>)"
  by (simp add: Shell_def)

lemma Shell_scripted:
  "Shell (scripted codes) cmd s =
     (if codes cmd \<noteq> 0 then Inl (ShellError cmd (codes cmd)) else Inr (),
      s\<lparr>issued := issued s @ [cmd]\<rparr>)"
  by (simp add: Shell_def scripted_def)

subsection \<open>The pre-mount step\<close>

lemma pre_mount_unbound:
  "cfg ''PRE_MOUNT'' = None \<Longrightarrow>
   RunBackup en cfg s = (Inl (UnboundLocalError ''premount''), s)"
  by (simp add: RunBackup_def pre_mount_def)

lemma load_no_premount:
  "\<exists>cfg. BackupConfig (Map.empty(''/home/greg/.backuprc'' \<mapsto> rc_no_premount))
            ''/home/greg/.backuprc'' = Inr cfg \<and> cfg ''PRE_MOUNT'' = None"
  by (simp add: BackupConfig_def rc_no_premount_def Process_line_def strip_def is_space_def
                split_first_def)

text \<open>
  C3. The claim is that a run without a pre-mount directive skips the pre-mount step and
  goes on to the encrypted mount. The script does not: for the configuration loaded from
  \<open>rc_no_premount\<close>, which has every directive but \<^verbatim>\<open>PRE_MOUNT\<close>, \<^verbatim>\<open>RunBackup\<close> raises
  \<^verbatim>\<open>UnboundLocalError\<close> for the local \<^verbatim>\<open>premount\<close> in any environment, and the state is
  the one it started in: no command is issued, the encrypted mount included.
\<close>

theorem run_without_pre_mount:
  "case BackupConfig (Map.empty(''/home/greg/.backuprc'' \<mapsto> rc_no_premount))
          ''/home/greg/.backuprc'' of
     Inl e \<Rightarrow> False
   | Inr cfg \<Rightarrow> RunBackup en cfg s = (Inl (UnboundLocalError ''premount''), s)"
  using load_no_premount [simplified] pre_mount_unbound by (auto split: sum.splits)

text \<open>
  C4. With a pre-mount device configured, let the \<^verbatim>\<open>mount\<close> command exit with status
  \<open>rc\<close>. When \<open>rc\<close> is 32 the run goes on exactly as when it is 0: with the encrypted mount
  and then the copying, from the state the \<^verbatim>\<open>mount\<close> command left. With any other status
  the run ends with that \<^verbatim>\<open>ShellError\<close>; the \<^verbatim>\<open>mount\<close> command is the only one issued and
  the failure is logged.
\<close>

theorem pre_mount_exit_status:
  "cfg ''PRE_MOUNT'' = Some dev \<Longrightarrow>
   exec en (''mount '' @ py_str dev) (world s) = (rc, w') \<Longrightarrow>
   (rc = 32 \<or> rc = 0 \<longrightarrow>
      RunBackup en cfg s =
        and_then
          (encfs_mount en cfg (s\<lparr>world := w', issued := issued s @ [''mount '' @ py_str dev]\<rparr>))
          (syncAll en cfg)) \<and>
   (rc \<noteq> 32 \<and> rc \<noteq> 0 \<longrightarrow>
      RunBackup en cfg s =
        (Inl (ShellError (''mount '' @ py_str dev) rc),
         s\<lparr>world := w', issued := issued s @ [''mount '' @ py_str dev],
           logged := logged s @ [''Pre Mount Failed'']\<rparr>))"
  by (auto simp: RunBackup_def pre_mount_def Shell_exit log_msg_def)

lemma demo_cfg_simps:
  "demo_cfg ''PRE_MOUNT'' = Some (Str ''/dev/sdb1'')"
  "demo_cfg ''FILEPATHS'' = Some (Lst [''/a'', ''/b'', ''/c''])"
  "demo_cfg ''ENCRYPTED_MOUNTPOINT'' = Some (Str ''/mnt/enc'')"
  "demo_cfg ''DECRYPTED_MOUNTPOINT'' = Some (Str ''/mnt/dec'')"
  "demo_cfg ''ENCFS_PASSWORD'' = Some (Str ''secret'')"
  "demo_cfg ''RSYNC_FLAGS'' = Some (Str ''-a'')"
  "demo_cfg ''SNAPSHOTS'' = Some (Str ''hourly=3,daily=3'')"
  "demo_cfg ''UNMOUNT_AT_END'' = None"
  by (simp_all add: demo_cfg_def)

theorem pre_mount_exit_status_witness:
  "RunBackup (scripted (\<lambda>c. if c = ''mount /dev/sdb1'' then 32 else 0)) demo_cfg (start ()) =
     (Inr (),
      \<lparr>world = (),
       issued = [''mount /dev/sdb1'', ''echo 'secret' | encfs -S /mnt/enc/current /mnt/dec'',
                 ''rsync /a -a /mnt/dec'', ''rsync /b -a /mnt/dec'', ''rsync /c -a /mnt/dec'',
                 ''fusermount -u /mnt/dec''],
       logged = []\<rparr>) \<and>
   RunBackup (scripted (\<lambda>c. if c = ''mount /dev/sdb1'' then 1 else 0)) demo_cfg (start ()) =
     (Inl (ShellError ''mount /dev/sdb1'' 1),
      \<lparr>world = (), issued = [''mount /dev/sdb1''], logged = [''Pre Mount Failed'']\<rparr>)"
  using pre_mount_exit_status [of demo_cfg "Str ''/dev/sdb1''"
          "scripted (\<lambda>c. if c = ''mount /dev/sdb1'' then 32 else 0)" "start ()" 32 "()"]
        pre_mount_exit_status [of demo_cfg "Str ''/dev/sdb1''"
          "scripted (\<lambda>c. if c = ''mount /dev/sdb1'' then 1 else 0)" "start ()" 1 "()"]
  by (simp add: demo_cfg_simps start_def encfs_mount_def getattr_def path_join_def syncAll_def
        rsync_all_def rsync_cmd_def Shell_scripted unmount_at_end_def should_unmount_def)
     (simp add: scripted_def)

subsection \<open>Copying and the unmount at the end\<close>

lemma rsync_loop_all_ok:
  "cfg ''RSYNC_FLAGS'' = Some fl \<Longrightarrow> cfg ''DECRYPTED_MOUNTPOINT'' = Some dm \<Longrightarrow>
   run_all en (map (\<lambda>f. rsync_cmd f fl dm) ps) (world s) = Some w1 \<Longrightarrow>
   rsync_loop en cfg ps s =
     (Inr (), s\<lparr>world := w1, issued := issued s @ map (\<lambda>f. rsync_cmd f fl dm) ps\<rparr>)"
proof (induction ps arbitrary: s)
  case Nil
  then show ?case by simp
next
  case (Cons p ps)
  obtain rc w' where ex: "exec en (rsync_cmd p fl dm) (world s) = (rc, w')"
    by (cases "exec en (rsync_cmd p fl dm) (world s)")
  with Cons.prems have rc: "rc = 0"
    and rest: "run_all en (map (\<lambda>f. rsync_cmd f fl dm) ps) w' = Some w1"
    by (auto split: if_splits)
  let ?s1 = "s\<lparr>world := w', issued := issued s @ [rsync_cmd p fl dm]\<rparr>"
  have "rsync_loop en cfg ps ?s1 =
     (Inr (), ?s1\<lparr>world := w1, issued := issued ?s1 @ map (\<lambda>f. rsync_cmd f fl dm) ps\<rparr>)"
    using Cons.IH [of ?s1] Cons.prems(1,2) rest by simp
  then show ?case
    using Cons.prems(1,2) ex rc by (simp add: getattr_def Shell_exit)
qed

lemma rsync_loop_append:
  "rsync_loop en cfg (pre @ rest) s = and_then (rsync_loop en cfg pre s) (rsync_loop en cfg rest)"
proof (induction pre arbitrary: s)
  case Nil
  then show ?case by simp
next
  case (Cons p pre)
  show ?case
  proof (cases "getattr cfg ''RSYNC_FLAGS''")
    case (Inl e)
    then show ?thesis by simp
  next
    case fl: (Inr fl)
    show ?thesis
    proof (cases "getattr cfg ''DECRYPTED_MOUNTPOINT''")
      case (Inl e)
      then show ?thesis using fl by simp
    next
      case dm: (Inr dm)
      obtain r s1 where sh: "Shell en (rsync_cmd p fl dm) s = (r, s1)"
        by (cases "Shell en (rsync_cmd p fl dm) s")
      show ?thesis using fl dm sh Cons.IH [of s1] by (cases r) simp_all
    qed
  qed
qed

text \<open>
  C5. Let the configured paths be \<open>pre\<close>, then \<open>p\<close>, then \<open>post\<close>, let the \<^verbatim>\<open>rsync\<close> commands
  for \<open>pre\<close> exit with status 0 one after the other, and let the one for \<open>p\<close> exit with a
  status \<open>rc\<close> other than 0. Then the copying part of the run raises the \<^verbatim>\<open>ShellError\<close> of
  that command, and the commands it has issued are the \<^verbatim>\<open>rsync\<close> commands for \<open>pre\<close> and
  for \<open>p\<close>, in list order: none for \<open>post\<close>, and no \<^verbatim>\<open>fusermount\<close>.
\<close>

theorem sync_stops_at_first_failure:
  "cfg ''FILEPATHS'' = Some v \<Longrightarrow> py_iter v = pre @ p # post \<Longrightarrow>
   cfg ''RSYNC_FLAGS'' = Some fl \<Longrightarrow> cfg ''DECRYPTED_MOUNTPOINT'' = Some dm \<Longrightarrow>
   run_all en (map (\<lambda>f. rsync_cmd f fl dm) pre) (world s) = Some w1 \<Longrightarrow>
   exec en (rsync_cmd p fl dm) w1 = (rc, w2) \<Longrightarrow> rc \<noteq> 0 \<Longrightarrow>
   syncAll en cfg s =
     (Inl (ShellError (rsync_cmd p fl dm) rc),
      s\<lparr>world := w2,
        issued := issued s @ map (\<lambda>f. rsync_cmd f fl dm) pre @ [rsync_cmd p fl dm]\<rparr>)"
proof -
  assume a: "cfg ''FILEPATHS'' = Some v" "py_iter v = pre @ p # post"
    "cfg ''RSYNC_FLAGS'' = Some fl" "cfg ''DECRYPTED_MOUNTPOINT'' = Some dm"
    "run_all en (map (\<lambda>f. rsync_cmd f fl dm) pre) (world s) = Some w1"
    "exec en (rsync_cmd p fl dm) w1 = (rc, w2)" "rc \<noteq> 0"
  let ?s1 = "s\<lparr>world := w1, issued := issued s @ map (\<lambda>f. rsync_cmd f fl dm) pre\<rparr>"
  have pre: "rsync_loop en cfg pre s = (Inr (), ?s1)"
    using a by (simp add: rsync_loop_all_ok)
  have "rsync_loop en cfg (p # post) ?s1 =
      (Inl (ShellError (rsync_cmd p fl dm) rc),
       ?s1\<lparr>world := w2, issued := issued ?s1 @ [rsync_cmd p fl dm]\<rparr>)"
    using a by (simp add: getattr_def Shell_exit)
  then have "rsync_loop en cfg (pre @ p # post) s =
      (Inl (ShellError (rsync_cmd p fl dm) rc),
       s\<lparr>world := w2,
         issued := issued s @ map (\<lambda>f. rsync_cmd f fl dm) pre @ [rsync_cmd p fl dm]\<rparr>)"
    using pre by (simp add: rsync_loop_append)
  then show ?thesis
    using a by (simp add: syncAll_def rsync_all_def getattr_def)
qed

theorem sync_stops_at_first_failure_witness:
  "syncAll (scripted (\<lambda>c. if c = ''rsync /b -a /mnt/dec'' then 23 else 0)) demo_cfg (start ()) =
     (Inl (ShellError ''rsync /b -a /mnt/dec'' 23),
      \<lparr>world = (), issued = [''rsync /a -a /mnt/dec'', ''rsync /b -a /mnt/dec''], logged = []\<rparr>)"
  using sync_stops_at_first_failure [of demo_cfg "Lst [''/a'', ''/b'', ''/c'']" "[''/a'']" "''/b''"
          "[''/c'']" "Str ''-a''" "Str ''/mnt/dec''"
          "scripted (\<lambda>c. if c = ''rsync /b -a /mnt/dec'' then 23 else 0)" "start ()" "()" 23 "()"]
  by (simp add: demo_cfg_simps start_def rsync_cmd_def scripted_def)

text \<open>
  C6. Let the \<^verbatim>\<open>rsync\<close> commands for all configured paths exit with status 0 (there may be
  none). Then the copying part of the run issues \<^verbatim>\<open>fusermount -u\<close> on the decrypted mount
  point, and ends as that command does, when \<^verbatim>\<open>UNMOUNT_AT_END\<close> is absent or is the string
  \<^verbatim>\<open>True\<close>; with any other value it issues nothing more and succeeds.
\<close>

theorem unmount_after_sync:
  "cfg ''FILEPATHS'' = Some v \<Longrightarrow>
   py_iter v = [] \<or> cfg ''RSYNC_FLAGS'' = Some fl \<Longrightarrow>
   cfg ''DECRYPTED_MOUNTPOINT'' = Some dm \<Longrightarrow>
   run_all en (map (\<lambda>f. rsync_cmd f fl dm) (py_iter v)) (world s) = Some w1 \<Longrightarrow>
   syncAll en cfg s =
     (if cfg ''UNMOUNT_AT_END'' = None \<or> cfg ''UNMOUNT_AT_END'' = Some (Str ''True'')
      then Shell en (''fusermount -u '' @ py_str dm)
             (s\<lparr>world := w1, issued := issued s @ map (\<lambda>f. rsync_cmd f fl dm) (py_iter v)\<rparr>)
      else (Inr (),
            s\<lparr>world := w1, issued := issued s @ map (\<lambda>f. rsync_cmd f fl dm) (py_iter v)\<rparr>))"
proof -
  assume a: "cfg ''FILEPATHS'' = Some v" "py_iter v = [] \<or> cfg ''RSYNC_FLAGS'' = Some fl"
    "cfg ''DECRYPTED_MOUNTPOINT'' = Some dm"
    "run_all en (map (\<lambda>f. rsync_cmd f fl dm) (py_iter v)) (world s) = Some w1"
  let ?s1 = "s\<lparr>world := w1, issued := issued s @ map (\<lambda>f. rsync_cmd f fl dm) (py_iter v)\<rparr>"
  have loop: "rsync_loop en cfg (py_iter v) s = (Inr (), ?s1)"
  proof (cases "py_iter v = []")
    case True
    then show ?thesis using a(4) by simp
  next
    case False
    then show ?thesis using a by (simp add: rsync_loop_all_ok)
  qed
  show ?thesis
    using a(1,3) loop
    by (auto simp: syncAll_def rsync_all_def getattr_def unmount_at_end_def should_unmount_def
             split: option.splits)
qed

theorem unmount_after_sync_witness:
  "syncAll (scripted (\<lambda>c. 0)) demo_cfg (start ()) =
     (Inr (),
      \<lparr>world = (),
       issued = [''rsync /a -a /mnt/dec'', ''rsync /b -a /mnt/dec'', ''rsync /c -a /mnt/dec'',
                 ''fusermount -u /mnt/dec''],
       logged = []\<rparr>) \<and>
   syncAll (scripted (\<lambda>c. 0)) (demo_cfg(''UNMOUNT_AT_END'' \<mapsto> Str ''False'')) (start ()) =
     (Inr (),
      \<lparr>world = (),
       issued = [''rsync /a -a /mnt/dec'', ''rsync /b -a /mnt/dec'', ''rsync /c -a /mnt/dec''],
       logged = []\<rparr>)"
  using unmount_after_sync [of demo_cfg "Lst [''/a'', ''/b'', ''/c'']" "Str ''-a''"
          "Str ''/mnt/dec''" "scripted (\<lambda>c. 0)" "start ()" "()"]
        unmount_after_sync [of "demo_cfg(''UNMOUNT_AT_END'' \<mapsto> Str ''False'')"
          "Lst [''/a'', ''/b'', ''/c'']" "Str ''-a''" "Str ''/mnt/dec''" "scripted (\<lambda>c. 0)"
          "start ()" "()"]
  by (simp add: demo_cfg_simps start_def rsync_cmd_def Shell_scripted)
     (simp add: scripted_def)

subsection \<open>Values used by the examples\<close>

lemma py_int_small: "py_int ''0'' = Inr 0" "py_int ''3'' = Inr 3"
  by code_simp+

lemma str_int_small: "str_int 1 = ''1''" "str_int 2 = ''2''" "str_int 3 = ''3''"
  by code_simp+

lemma range_down_3: "range_down 3 = [3, 2]"
  by code_simp

subsection \<open>A frequency without a positive count\<close>

text \<open>
  C2. The claim is that rotating a frequency that the table lacks, or that has a count of
  0 or less, fails with the error for an invalid frequency and changes nothing. The script
  changes nothing, but the failure is not the assertion it wrote: for the table
  \<^verbatim>\<open>hourly=3,daily=3\<close> and the frequency \<^verbatim>\<open>weekly\<close>, and for the table \<^verbatim>\<open>hourly=0\<close> and the
  frequency \<^verbatim>\<open>hourly\<close>, \<^verbatim>\<open>MakeSnapshot\<close> raises \<^verbatim>\<open>NameError\<close> for \<^verbatim>\<open>frequency_type\<close>, in any
  environment and with the state left as it was.
\<close>

theorem rotate_without_count:
  "MakeSnapshot en demo_cfg ''weekly'' s = (Inl (NameError ''frequency_type''), s) \<and>
   MakeSnapshot en (demo_cfg(''SNAPSHOTS'' \<mapsto> Str ''hourly=0'')) ''hourly'' s =
     (Inl (NameError ''frequency_type''), s)"
  by (simp add: MakeSnapshot_def getattr_def demo_cfg_simps py_int_small)

subsection \<open>The order of the phases\<close>








subsection \<open>Loading the configuration\<close>

lemma Process_line_skip:
  "strip raw = [] \<or> hd (strip raw) = CHR ''#'' \<Longrightarrow> Process_line d raw = Inr d"
  by (auto simp: Process_line_def Let_def)

lemma Process_line_kv:
  "strip raw \<noteq> [] \<Longrightarrow> hd (strip raw) \<noteq> CHR ''#'' \<Longrightarrow> CHR '' '' \<in> set (strip raw) \<Longrightarrow>
   Process_line d raw = Inr (d(fst (split_first (strip raw)) \<mapsto> Str (snd (split_first (strip raw)))))"
  by (simp add: Process_line_def Let_def split_beta)

lemma Process_line_path:
  "strip raw \<noteq> [] \<Longrightarrow> hd (strip raw) \<noteq> CHR ''#'' \<Longrightarrow> CHR '' '' \<notin> set (strip raw) \<Longrightarrow>
   d ''FILEPATHS'' = Some (Lst ps) \<Longrightarrow>
   Process_line d raw = Inr (d(''FILEPATHS'' \<mapsto> Lst (ps @ [strip raw])))"
  by (simp add: Process_line_def Let_def)

lemma lines_Cons_skip:
  "strip raw = [] \<or> hd (strip raw) = CHR ''#'' \<Longrightarrow>
   path_lines (raw # rest) = path_lines rest \<and> kv_lines (raw # rest) = kv_lines rest"
  by (auto simp: path_lines_def kv_lines_def content_lines_def)

lemma lines_Cons_kv:
  "strip raw \<noteq> [] \<Longrightarrow> hd (strip raw) \<noteq> CHR ''#'' \<Longrightarrow> CHR '' '' \<in> set (strip raw) \<Longrightarrow>
   path_lines (raw # rest) = path_lines rest \<and>
   kv_lines (raw # rest) = split_first (strip raw) # kv_lines rest"
  by (simp add: path_lines_def kv_lines_def content_lines_def)

lemma lines_Cons_path:
  "strip raw \<noteq> [] \<Longrightarrow> hd (strip raw) \<noteq> CHR ''#'' \<Longrightarrow> CHR '' '' \<notin> set (strip raw) \<Longrightarrow>
   path_lines (raw # rest) = strip raw # path_lines rest \<and> kv_lines (raw # rest) = kv_lines rest"
  by (simp add: path_lines_def kv_lines_def content_lines_def)

lemma Process_without_FILEPATHS_key:
  "d ''FILEPATHS'' = Some (Lst ps) \<Longrightarrow> ''FILEPATHS'' \<notin> fst ` set (kv_lines lines) \<Longrightarrow>
   \<exists>d'. Process d lines = Inr d' \<and>
        d' ''FILEPATHS'' = Some (Lst (ps @ path_lines lines)) \<and>
        (\<forall>k. k \<noteq> ''FILEPATHS'' \<longrightarrow>
           d' k = (case map_of (rev (kv_lines lines)) k of Some v \<Rightarrow> Some (Str v) | None \<Rightarrow> d k))"
proof (induction lines arbitrary: d ps)
  case Nil
  then show ?case by (simp add: path_lines_def kv_lines_def content_lines_def)
next
  case (Cons raw rest)
  consider (skip) "strip raw = [] \<or> hd (strip raw) = CHR ''#''"
    | (kv) "strip raw \<noteq> []" "hd (strip raw) \<noteq> CHR ''#''" "CHR '' '' \<in> set (strip raw)"
    | (path) "strip raw \<noteq> []" "hd (strip raw) \<noteq> CHR ''#''" "CHR '' '' \<notin> set (strip raw)"
    by blast
  then show ?case
  proof cases
    case skip
    then show ?thesis
      using Cons.IH [of d ps] Cons.prems
      by (simp add: Process_line_skip lines_Cons_skip)
  next
    case kv
    obtain k v where kv': "split_first (strip raw) = (k, v)"
      by (cases "split_first (strip raw)")
    have cons: "kv_lines (raw # rest) = (k, v) # kv_lines rest"
      "path_lines (raw # rest) = path_lines rest"
      using kv kv' by (simp_all add: lines_Cons_kv)
    with Cons.prems have k: "k \<noteq> ''FILEPATHS''" and rest: "''FILEPATHS'' \<notin> fst ` set (kv_lines rest)"
      by auto
    have pl: "Process_line d raw = Inr (d(k \<mapsto> Str v))"
      using kv kv' by (simp add: Process_line_kv)
    have "(d(k \<mapsto> Str v)) ''FILEPATHS'' = Some (Lst ps)"
      using k Cons.prems(1) by simp
    from Cons.IH [of "d(k \<mapsto> Str v)" ps, OF this rest] obtain d' where d':
      "Process (d(k \<mapsto> Str v)) rest = Inr d'"
      "d' ''FILEPATHS'' = Some (Lst (ps @ path_lines rest))"
      "\<forall>k'. k' \<noteq> ''FILEPATHS'' \<longrightarrow>
         d' k' = (case map_of (rev (kv_lines rest)) k' of Some v \<Rightarrow> Some (Str v)
                  | None \<Rightarrow> (d(k \<mapsto> Str v)) k')"
      by blast
    have "\<forall>k'. k' \<noteq> ''FILEPATHS'' \<longrightarrow>
         d' k' = (case map_of (rev (kv_lines (raw # rest))) k' of Some v \<Rightarrow> Some (Str v)
                  | None \<Rightarrow> d k')"
      using d'(3) by (auto simp: cons map_add_def split: option.splits)
    then show ?thesis
      using pl d'(1,2) cons by simp
  next
    case path
    have cons: "kv_lines (raw # rest) = kv_lines rest"
      "path_lines (raw # rest) = strip raw # path_lines rest"
      using path by (simp_all add: lines_Cons_path)
    have pl: "Process_line d raw = Inr (d(''FILEPATHS'' \<mapsto> Lst (ps @ [strip raw])))"
      using path Cons.prems(1) by (simp add: Process_line_path)
    have "(d(''FILEPATHS'' \<mapsto> Lst (ps @ [strip raw]))) ''FILEPATHS'' = Some (Lst (ps @ [strip raw]))"
      by simp
    from Cons.IH [of "d(''FILEPATHS'' \<mapsto> Lst (ps @ [strip raw]))" "ps @ [strip raw]", OF this]
      Cons.prems(2) obtain d' where d':
      "Process (d(''FILEPATHS'' \<mapsto> Lst (ps @ [strip raw]))) rest = Inr d'"
      "d' ''FILEPATHS'' = Some (Lst ((ps @ [strip raw]) @ path_lines rest))"
      "\<forall>k'. k' \<noteq> ''FILEPATHS'' \<longrightarrow>
         d' k' = (case map_of (rev (kv_lines rest)) k' of Some v \<Rightarrow> Some (Str v)
                  | None \<Rightarrow> (d(''FILEPATHS'' \<mapsto> Lst (ps @ [strip raw]))) k')"
      unfolding cons by blast
    have "\<forall>k'. k' \<noteq> ''FILEPATHS'' \<longrightarrow>
         d' k' = (case map_of (rev (kv_lines (raw # rest))) k' of Some v \<Rightarrow> Some (Str v)
                  | None \<Rightarrow> d k')"
      using d'(3) by (auto simp: cons split: option.splits)
    then show ?thesis
      using pl d'(1,2) cons by simp
  qed
qed

lemma split_first_line:
  "CHR '' '' \<in> set l \<Longrightarrow> split_first l = (k, v) \<Longrightarrow> l = k @ CHR '' '' # v \<and> CHR '' '' \<notin> set k"
proof -
  assume a: "CHR '' '' \<in> set l" "split_first l = (k, v)"
  have k: "k = takeWhile (\<lambda>c. c \<noteq> CHR '' '') l" and v: "v = drop 1 (dropWhile (\<lambda>c. c \<noteq> CHR '' '') l)"
    using a(2) by (simp_all add: split_first_def)
  have ne: "dropWhile (\<lambda>c. c \<noteq> CHR '' '') l \<noteq> []"
    using a(1) by (simp add: dropWhile_eq_Nil_conv) 
  then have hd: "hd (dropWhile (\<lambda>c. c \<noteq> CHR '' '') l) = CHR '' ''"
    using hd_dropWhile [of "\<lambda>c. c \<noteq> CHR '' ''" l] by simp
  have "dropWhile (\<lambda>c. c \<noteq> CHR '' '') l = CHR '' '' # v"
    using ne hd v by (cases "dropWhile (\<lambda>c. c \<noteq> CHR '' '') l") simp_all
  then have "l = k @ CHR '' '' # v"
    using takeWhile_dropWhile_id [of "\<lambda>c. c \<noteq> CHR '' ''" l] k by simp
  moreover have "CHR '' '' \<notin> set k"
    unfolding k using set_takeWhileD by fastforce
  ultimately show ?thesis by simp
qed


lemma Process_append:
  "Process d (xs @ ys) = (case Process d xs of Inl e \<Rightarrow> Inl e | Inr d' \<Rightarrow> Process d' ys)"
  by (induction xs arbitrary: d) (auto split: sum.splits)

lemma kv_lines_split:
  "(k, v) \<in> set (kv_lines lines) \<Longrightarrow>
   CHR '' '' \<notin> set k \<and> k @ CHR '' '' # v \<in> set (content_lines lines)"
proof -
  assume "(k, v) \<in> set (kv_lines lines)"
  then obtain l where l: "l \<in> set (content_lines lines)" "CHR '' '' \<in> set l"
    "split_first l = (k, v)"
    by (auto simp: kv_lines_def)
  then show ?thesis using split_first_line [of l k v] by simp
qed

text \<open>
  C7, as amended. For a configuration file none of whose key/value lines has the key
  \<^verbatim>\<open>FILEPATHS\<close>, loading succeeds; the path list of the configuration is the list of the
  path lines, stripped and in file order; the attributes are \<^verbatim>\<open>FILEPATHS\<close> and the keys of
  the key/value lines; a key holds the value of its last line. When the keys are distinct
  there are as many attributes besides \<^verbatim>\<open>FILEPATHS\<close> as key/value lines, each key holding
  the value of its line. A key/value line is its key, one space and its value, and the key
  has no space.
\<close>

theorem load_config_lines:
  "fls p = Some lines \<Longrightarrow> ''FILEPATHS'' \<notin> fst ` set (kv_lines lines) \<Longrightarrow>
   \<exists>cfg. BackupConfig fls p = Inr cfg \<and>
     cfg ''FILEPATHS'' = Some (Lst (path_lines lines)) \<and>
     dom cfg = insert ''FILEPATHS'' (fst ` set (kv_lines lines)) \<and>
     (\<forall>k v. map_of (rev (kv_lines lines)) k = Some v \<longrightarrow> cfg k = Some (Str v)) \<and>
     (distinct (map fst (kv_lines lines)) \<longrightarrow>
        card (dom cfg - {''FILEPATHS''}) = length (kv_lines lines) \<and>
        (\<forall>(k, v) \<in> set (kv_lines lines). cfg k = Some (Str v))) \<and>
     (\<forall>(k, v) \<in> set (kv_lines lines).
        CHR '' '' \<notin> set k \<and> k @ CHR '' '' # v \<in> set (content_lines lines))"
proof -
  assume cfile: "fls p = Some lines" and nokey: "''FILEPATHS'' \<notin> fst ` set (kv_lines lines)"
  let ?kvs = "kv_lines lines"
  have "(Map.empty(''FILEPATHS'' \<mapsto> Lst [])) ''FILEPATHS'' = Some (Lst [])"
    by simp
  from Process_without_FILEPATHS_key [of "Map.empty(''FILEPATHS'' \<mapsto> Lst [])" "[]", OF this nokey]
  obtain cfg where cfg0:
    "Process (Map.empty(''FILEPATHS'' \<mapsto> Lst [])) lines = Inr cfg"
    "cfg ''FILEPATHS'' = Some (Lst ([] @ path_lines lines))"
    "\<forall>k. k \<noteq> ''FILEPATHS'' \<longrightarrow>
       cfg k = (case map_of (rev ?kvs) k of Some v \<Rightarrow> Some (Str v)
                | None \<Rightarrow> (Map.empty(''FILEPATHS'' \<mapsto> Lst [])) k)"
    by blast
  have cfg:
    "Process (Map.empty(''FILEPATHS'' \<mapsto> Lst [])) lines = Inr cfg"
    "cfg ''FILEPATHS'' = Some (Lst (path_lines lines))"
    "\<forall>k. k \<noteq> ''FILEPATHS'' \<longrightarrow>
       cfg k = (case map_of (rev ?kvs) k of Some v \<Rightarrow> Some (Str v) | None \<Rightarrow> None)"
    using cfg0 by (simp_all split: option.splits)
  have load: "BackupConfig fls p = Inr cfg"
    using cfile cfg(1) by (simp add: BackupConfig_def)
  have last_wins: "cfg k = Some (Str v)" if "map_of (rev ?kvs) k = Some v" for k v
  proof -
    from that have "k \<in> fst ` set ?kvs"
      using map_of_SomeD [of "rev ?kvs" k v] by force
    with nokey have "k \<noteq> ''FILEPATHS''" by blast
    with cfg(3) that show ?thesis by simp
  qed
  have dom_other: "k \<in> dom cfg \<longleftrightarrow> k \<in> fst ` set ?kvs" if "k \<noteq> ''FILEPATHS''" for k
  proof -
    have "k \<in> dom cfg \<longleftrightarrow> map_of (rev ?kvs) k \<noteq> None"
      using cfg(3) that by (auto split: option.splits)
    also have "\<dots> \<longleftrightarrow> k \<in> fst ` set (rev ?kvs)"
      by (simp add: map_of_eq_None_iff)
    finally show ?thesis by simp
  qed
  have dom: "dom cfg = insert ''FILEPATHS'' (fst ` set ?kvs)"
  proof (rule set_eqI)
    fix k
    show "k \<in> dom cfg \<longleftrightarrow> k \<in> insert ''FILEPATHS'' (fst ` set ?kvs)"
      using dom_other [of k] cfg(2) by (cases "k = ''FILEPATHS''") auto
  qed
  have dist: "card (dom cfg - {''FILEPATHS''}) = length ?kvs \<and>
      (\<forall>(k, v) \<in> set ?kvs. cfg k = Some (Str v))" if d: "distinct (map fst ?kvs)"
  proof
    have "dom cfg - {''FILEPATHS''} = set (map fst ?kvs)"
      using dom nokey by auto
    then show "card (dom cfg - {''FILEPATHS''}) = length ?kvs"
      using distinct_card [OF d] by simp
    have d': "distinct (map fst (rev ?kvs))"
      using d by (simp add: rev_map [symmetric])
    show "\<forall>(k, v) \<in> set ?kvs. cfg k = Some (Str v)"
    proof (clarify)
      fix k v assume "(k, v) \<in> set ?kvs"
      then have "map_of (rev ?kvs) k = Some v"
        using map_of_is_SomeI [OF d', of k v] by simp
      then show "cfg k = Some (Str v)" by (rule last_wins)
    qed
  qed
  have shape: "\<forall>(k, v) \<in> set ?kvs.
      CHR '' '' \<notin> set k \<and> k @ CHR '' '' # v \<in> set (content_lines lines)"
    using kv_lines_split by blast
  show ?thesis
    using load cfg(2) dom last_wins dist shape by blast
qed


lemma Process_line_FILEPATHS:
  "strip raw = ''FILEPATHS '' @ v \<Longrightarrow> Process_line d raw = Inr (d(''FILEPATHS'' \<mapsto> Str v))"
  by (simp add: Process_line_def split_first_def)

text \<open>
  C10. A line that strips to \<^verbatim>\<open>FILEPATHS\<close>, a space and a value \<open>v\<close> stores the string \<open>v\<close>
  under \<^verbatim>\<open>FILEPATHS\<close>: after the lines \<open>pre\<close> and that line, the configuration is the one
  that \<open>pre\<close> gave with its path list replaced by the string, whatever paths \<open>pre\<close> had
  collected.
\<close>

theorem FILEPATHS_key_replaces_paths:
  "strip raw = ''FILEPATHS '' @ v \<Longrightarrow> Process d0 pre = Inr d1 \<Longrightarrow>
   Process d0 (pre @ [raw]) = Inr (d1(''FILEPATHS'' \<mapsto> Str v))"
  by (simp add: Process_append Process_line_FILEPATHS)


lemma strip_plain:
  "strip ''/a'' = ''/a''" "strip ''/b'' = ''/b''" "strip ''FILEPATHS x'' = ''FILEPATHS x''"
  by (simp_all add: strip_def is_space_def)

theorem load_config_lines_witness:
  "lookup_loaded (Map.empty(''/rc'' \<mapsto> rc_twice)) ''/rc'' ''FILEPATHS'' =
     Inr (Some (Lst [''/home/greg/'', ''/etc/fstab''])) \<and>
   lookup_loaded (Map.empty(''/rc'' \<mapsto> rc_twice)) ''/rc'' ''PRE_MOUNT'' =
     Inr (Some (Str ''/dev/sdc1'')) \<and>
   lookup_loaded (Map.empty(''/rc'' \<mapsto> rc_twice)) ''/rc'' ''RSYNC_FLAGS'' =
     Inr (Some (Str ''-a --delete'')) \<and>
   lookup_loaded (Map.empty(''/rc'' \<mapsto> rc_twice)) ''/rc'' ''LOG_FILE'' = Inr None"
  using load_config_lines [of "Map.empty(''/rc'' \<mapsto> rc_twice)" "''/rc''" rc_twice]
  by (simp add: lookup_loaded_def BackupConfig_def rc_twice_def Process_line_def strip_def
        is_space_def split_first_def kv_lines_def content_lines_def)

theorem load_config_lines_counterexample:
  "path_lines [''/a'', ''FILEPATHS x''] = [''/a''] \<and>
   kv_lines [''/a'', ''FILEPATHS x''] = [(''FILEPATHS'', ''x'')] \<and>
   lookup_loaded (Map.empty(''/rc'' \<mapsto> [''/a'', ''FILEPATHS x''])) ''/rc'' ''FILEPATHS'' =
     Inr (Some (Str ''x''))"
  by (simp add: lookup_loaded_def BackupConfig_def Process_line_def strip_plain
        split_first_def kv_lines_def path_lines_def content_lines_def)



theorem FILEPATHS_key_replaces_paths_witness:
  "Process (Map.empty(''FILEPATHS'' \<mapsto> Lst [])) [''/a'', ''/b''] =
     Inr (Map.empty(''FILEPATHS'' \<mapsto> Lst [''/a'', ''/b''])) \<and>
   Process (Map.empty(''FILEPATHS'' \<mapsto> Lst [])) [''/a'', ''/b'', ''FILEPATHS x''] =
     Inr (Map.empty(''FILEPATHS'' \<mapsto> Str ''x''))"
  using FILEPATHS_key_replaces_paths [of "''FILEPATHS x''" "''x''"
          "Map.empty(''FILEPATHS'' \<mapsto> Lst [])" "[''/a'', ''/b'']"
          "Map.empty(''FILEPATHS'' \<mapsto> Lst [''/a'', ''/b''])"]
  by (simp add: Process_line_def strip_plain split_first_def)

subsection \<open>Decimal text and the paths of a rotation\<close>




















subsection \<open>The tools in the reference file system\<close>










subsection \<open>The rotation\<close>













lemma rotation_demo_commands:
  "issued (snd (MakeSnapshot fs_env demo_cfg ''daily'' (start daily_fs))) =
     [''rm -rf /mnt/enc/daily.3'', ''mv /mnt/enc/daily.2 /mnt/enc/daily.3'',
      ''mv /mnt/enc/daily.1 /mnt/enc/daily.2'', ''cp -al /mnt/enc/current /mnt/enc/daily.1'']"
  by (simp add: MakeSnapshot_def getattr_def demo_cfg_simps py_int_small snapshot_path_def
        str_int_small range_down_3 path_join_def Shell_def fs_env_def fs_exec_def fs_rm_def
        fs_mv_def fs_cp_def fs_target_def clone_current_def daily_fs_def start_def Let_def)

end
